theory Spec2Isabelle
  imports Main
begin

section \<open>Data model\<close>

text \<open>
  The embedding follows \<^verbatim>\<open>engine/tg/tg_handlers.py\<close>, \<^verbatim>\<open>engine/sqlite/database.py\<close>,
  \<^verbatim>\<open>engine/fastapi/web.py\<close> and \<^verbatim>\<open>engine/gcalendar/gcal_handlers.py\<close>.
  Python exceptions are values of \<open>py_error\<close>; a function that can raise returns
  \<open>py_error + 'a\<close> together with the state it had reached when it raised.
\<close>

datatype py_error =
    KeyError
  | ValueError
  | DoesNotExist
  | AttributeError
  | BadRequest
  | HttpError string

text \<open>
  The texts of \<^verbatim>\<open>engine/tg/tg_messages.py\<close> are kept symbolic: one constructor per
  constant of that module, the \<^verbatim>\<open>{...}\<close> fields of a template as its arguments.
  \<open>CALENDAR_LINES\<close> and \<open>GCAL_ENTRY_LINES\<close> are the line lists that
  \<^verbatim>\<open>__show_calendars\<close> and \<^verbatim>\<open>__show_share\<close> build.
\<close>

datatype access_text = ACCESS_FREE_BUSY | ACCESS_READ | ACCESS_WRITE

datatype tg_text =
    TG_HELP
  | TG_UNKNOWN
  | TG_KEYBOARD_ACTIVE
  | TG_INVALID_ARG_NUM nat
  | TG_AUTHZ_URL string
  | TG_AUTH_COMPLETE
  | TG_AUTH_FAILED
  | TG_CALENDAR_NOT_FOUND string
  | TG_USER_ADDED string string string
  | TG_USER_DELETED string string
  | TG_EMAIL_INVALID
  | TG_ROLE_INVALID "string list"
  | TG_REVOKE_AUTHZ
  | PROMPT_INITIAL_MENU
  | PROMPT_SHARE_EMAIL string
  | PROMPT_NOT_EMAIL
  | PROMPT_DELETE_EMAIL string
  | PROMPT_CHOOSE_ACTION string
  | PROMPT_CHOOSE_ROLE string string
  | CALENDAR_LINES "string list"
  | GCAL_ENTRY_LINES "(string \<times> access_text) list"

datatype button_text =
    BUTTON_START
  | BUTTON_BACK
  | BUTTON_FINISH
  | BUTTON_SHOW_SHARE
  | BUTTON_ADD_SHARE
  | BUTTON_DEL_SHARE
  | BUTTON_REVOKE_AUTHZ
  | BUTTON_FREE_BUSY
  | BUTTON_READER
  | BUTTON_WRITER
  | BUTTON_CALENDAR string

text \<open>An \<^verbatim>\<open>InlineKeyboardMarkup\<close>: rows of buttons, each a label and its callback data.\<close>

type_synonym markup = "(button_text \<times> string) list list"

text \<open>The states of the \<^verbatim>\<open>ConversationHandler\<close> (\<^verbatim>\<open>map(chr, range(0, 6))\<close> and \<^verbatim>\<open>END\<close>).\<close>

datatype conv_state =
    STATE_CALENDAR_SELECTION
  | STATE_ACTION_SELECTION
  | STATE_ADD_SHARE
  | STATE_ADD_SHARE_ROLE
  | STATE_DELETE_SHARE
  | STATE_FINISH
  | STATE_END

text \<open>
  \<^verbatim>\<open>context.chat_data\<close> of one chat. The handlers use three keys only
  (\<^verbatim>\<open>INITIAL_MSG_KEY\<close>, \<^verbatim>\<open>INLINE_MSG_KEY\<close>, \<^verbatim>\<open>INLINE_CALENDAR_KEY\<close>); a key that is
  absent from the dict is \<open>None\<close>.
\<close>

record session =
  initial_msg :: "int option"
  inline_msg :: "int option"
  calendar_name :: "string option"

definition no_session :: session where
  "no_session = \<lparr>initial_msg = None, inline_msg = None, calendar_name = None\<rparr>"

text \<open>Calls of the Telegram Bot API and of the calendar provider, in the order made.\<close>

datatype api_call =
    SendMessage int tg_text "int option"
  | EditMessageText int int tg_text markup
  | EditMessageReplyMarkup int int
  | DeleteMessage int int
  | AnswerCallbackQuery

datatype gcal_call =
    AuthorizationUrl
  | RefreshToken string
  | CalendarListList string
  | AclList string string
  | AclInsert string string string string
  | AclDelete string string string

datatype log_entry =
    LOG_NO_STATE
  | LOG_DENIED int
  | LOG_UNKNOWN_TYPE string

text \<open>
  The state the two processes share or own: \<open>bot_data\<close> is the dispatcher's
  \<^verbatim>\<open>bot_data\<close> dict (OAuth state string to chat id), \<open>chat_data\<close> the per-chat dicts,
  \<open>db\<close> the \<^verbatim>\<open>GCalendarCred\<close> table (\<^verbatim>\<open>chat_id\<close> is unique, so a map), \<open>shown\<close> what
  each chat message currently displays, \<open>next_message_id\<close> the id Telegram gives the
  next message sent.
\<close>

record world =
  bot_data :: "string \<rightharpoonup> int"
  chat_data :: "int \<Rightarrow> session"
  db :: "int \<rightharpoonup> string"
  shown :: "(int \<times> int) \<rightharpoonup> (tg_text \<times> markup option)"
  next_message_id :: int
  api_calls :: "api_call list"
  gcal_calls :: "gcal_call list"
  logged :: "log_entry list"

definition world0 :: world where
  "world0 = \<lparr>bot_data = Map.empty, chat_data = (\<lambda>_. no_session), db = Map.empty,
     shown = Map.empty, next_message_id = 1, api_calls = [], gcal_calls = [], logged = []\<rparr>"

section \<open>Credential store (\<^verbatim>\<open>engine/sqlite/database.py\<close>)\<close>

definition credentials_exists :: "int \<Rightarrow> world \<Rightarrow> bool" where
  "credentials_exists c w = (db w c \<noteq> None)"

definition create_credentials :: "int \<Rightarrow> string \<Rightarrow> world \<Rightarrow> world" where
  "create_credentials c credentials w =
     (if \<not> credentials_exists c w then w\<lparr>db := (db w)(c \<mapsto> credentials)\<rparr> else w)"

definition get_credentials :: "int \<Rightarrow> world \<Rightarrow> py_error + string" where
  "get_credentials c w = (case db w c of None \<Rightarrow> Inl DoesNotExist | Some b \<Rightarrow> Inr b)"

definition update_credentials :: "int \<Rightarrow> string \<Rightarrow> world \<Rightarrow> (py_error + unit) \<times> world" where
  "update_credentials c credentials w =
     (case db w c of
        None \<Rightarrow> (Inl DoesNotExist, w)
      | Some _ \<Rightarrow> (Inr (), w\<lparr>db := (db w)(c \<mapsto> credentials)\<rparr>))"

definition delete_credentials :: "int \<Rightarrow> world \<Rightarrow> world" where
  "delete_credentials c w = w\<lparr>db := (db w)(c := None)\<rparr>"

section \<open>Telegram Bot API\<close>

text \<open>
  The chat platform is an external collaborator. The model keeps what each message shows
  and the one failure the source guards against (comment at \<^verbatim>\<open>start\<close>: "If message is
  not actually changed and stays the same, BadRequest is thrown"); editing a message that
  does not exist is a \<^verbatim>\<open>BadRequest\<close> as well. Network failures are not modelled.
\<close>

definition send_message :: "int \<Rightarrow> tg_text \<Rightarrow> int option \<Rightarrow> markup option \<Rightarrow> world \<Rightarrow> int \<times> world" where
  "send_message c t reply_to m w =
     (next_message_id w,
      w\<lparr>shown := (shown w)((c, next_message_id w) \<mapsto> (t, m)),
        next_message_id := next_message_id w + 1,
        api_calls := api_calls w @ [SendMessage c t reply_to]\<rparr>)"

definition edit_message_text :: "int \<Rightarrow> int \<Rightarrow> tg_text \<Rightarrow> markup \<Rightarrow> world \<Rightarrow> (py_error + unit) \<times> world" where
  "edit_message_text c mid t m w =
     (let w' = w\<lparr>api_calls := api_calls w @ [EditMessageText c mid t m]\<rparr> in
      case shown w (c, mid) of
        None \<Rightarrow> (Inl BadRequest, w')
      | Some cur \<Rightarrow>
          if cur = (t, Some m) then (Inl BadRequest, w')
          else (Inr (), w'\<lparr>shown := (shown w)((c, mid) \<mapsto> (t, Some m))\<rparr>))"

definition edit_message_reply_markup_none :: "int \<Rightarrow> int \<Rightarrow> world \<Rightarrow> (py_error + unit) \<times> world" where
  "edit_message_reply_markup_none c mid w =
     (let w' = w\<lparr>api_calls := api_calls w @ [EditMessageReplyMarkup c mid]\<rparr> in
      case shown w (c, mid) of
        None \<Rightarrow> (Inl BadRequest, w')
      | Some (t, None) \<Rightarrow> (Inl BadRequest, w')
      | Some (t, Some _) \<Rightarrow> (Inr (), w'\<lparr>shown := (shown w)((c, mid) \<mapsto> (t, None))\<rparr>))"

definition delete_message :: "int \<Rightarrow> int \<Rightarrow> world \<Rightarrow> world" where
  "delete_message c mid w =
     w\<lparr>shown := (shown w)((c, mid) := None),
       api_calls := api_calls w @ [DeleteMessage c mid]\<rparr>"

section \<open>Handoff channel and dispatcher\<close>

text \<open>
  What travels on \<^verbatim>\<open>ipc_queue\<close>: a \<^verbatim>\<open>bool\<close> (the poison value), a \<^verbatim>\<open>dict\<close> (string keys
  and values, as \<^verbatim>\<open>oauth2callback\<close> builds them), or an object of another type, of
  which only the type's name is kept.
\<close>

datatype ipc_data =
    PyBool bool
  | PyDict "string \<rightharpoonup> string"
  | PyOther string

definition STATE_KEY :: string where
  "STATE_KEY = ''state''"

definition CREDENTIALS_KEY :: string where
  "CREDENTIALS_KEY = ''credentials''"

text \<open>\<^verbatim>\<open>context.bot_data[state] = chat_id\<close> in \<^verbatim>\<open>start\<close>: a plain dict assignment.\<close>

definition register :: "string \<Rightarrow> int \<Rightarrow> world \<Rightarrow> world" where
  "register state c w = w\<lparr>bot_data := (bot_data w)(state \<mapsto> c)\<rparr>"

text \<open>\<^verbatim>\<open>dispatcher.bot_data.pop(state)\<close>: raises \<^verbatim>\<open>KeyError\<close> when the key is absent.\<close>

definition consume :: "string \<Rightarrow> world \<Rightarrow> (py_error + int) \<times> world" where
  "consume state w =
     (case bot_data w state of
        None \<Rightarrow> (Inl KeyError, w)
      | Some c \<Rightarrow> (Inr c, w\<lparr>bot_data := (bot_data w)(state := None)\<rparr>))"

text \<open>One pass through the body of the \<^verbatim>\<open>while True\<close> loop of \<^verbatim>\<open>webauth_callback\<close>.\<close>

datatype loop_step = Continue world | Break world | Raise py_error world

definition webauth_callback_body :: "ipc_data \<Rightarrow> world \<Rightarrow> loop_step" where
  "webauth_callback_body ipc w =
     (case ipc of
        PyBool _ \<Rightarrow> Break w
      | PyDict d \<Rightarrow>
          (case d STATE_KEY of
             None \<Rightarrow> Raise KeyError w
           | Some state \<Rightarrow>
               (case consume state w of
                  (Inl _, w1) \<Rightarrow> Continue (w1\<lparr>logged := logged w1 @ [LOG_NO_STATE]\<rparr>)
                | (Inr c, w1) \<Rightarrow>
                    (case d CREDENTIALS_KEY of
                       None \<Rightarrow>
                         Continue (snd (send_message c TG_AUTH_FAILED None None
                           (w1\<lparr>logged := logged w1 @ [LOG_DENIED c]\<rparr>)))
                     | Some credentials \<Rightarrow>
                         Continue (snd (send_message c TG_AUTH_COMPLETE None None
                           (create_credentials c credentials w1))))))
      | PyOther ty \<Rightarrow> Continue (w\<lparr>logged := logged w @ [LOG_UNKNOWN_TYPE ty]\<rparr>))"

text \<open>
  The loop over the queue's content, oldest message first. \<^verbatim>\<open>ipc_queue.get()\<close> blocks on
  an empty queue: \<open>Blocked\<close> is the thread waiting there. The messages not taken from the
  queue are returned.
\<close>

datatype loop_exit = Exited | Crashed py_error | Blocked

fun webauth_callback :: "ipc_data list \<Rightarrow> world \<Rightarrow> loop_exit \<times> ipc_data list \<times> world" where
  "webauth_callback [] w = (Blocked, [], w)"
| "webauth_callback (ipc # queue) w =
     (case webauth_callback_body ipc w of
        Continue w' \<Rightarrow> webauth_callback queue w'
      | Break w' \<Rightarrow> (Exited, queue, w')
      | Raise e w' \<Rightarrow> (Crashed e, queue, w'))"

text \<open>
  The three messages the producers put on the queue, and the Python object each one is:
  \<open>Granted\<close> and \<open>Denied\<close> are the two dicts of \<^verbatim>\<open>oauth2callback\<close>, \<open>Shutdown\<close> the
  \<^verbatim>\<open>True\<close> of \<^verbatim>\<open>CustomUpdater._signal_handler\<close>.
\<close>

datatype handoff_message =
    Granted string string
  | Denied string
  | Shutdown

fun put :: "handoff_message \<Rightarrow> ipc_data" where
  "put (Granted state credentials) = PyDict [CREDENTIALS_KEY \<mapsto> credentials, STATE_KEY \<mapsto> state]"
| "put (Denied state) = PyDict [STATE_KEY \<mapsto> state]"
| "put Shutdown = PyBool True"

text \<open>The world after one pass of the loop body, whichever way the pass ended.\<close>

fun after :: "loop_step \<Rightarrow> world" where
  "after (Continue w) = w"
| "after (Break w) = w"
| "after (Raise err w) = w"

text \<open>
  Operations on \<^verbatim>\<open>bot_data\<close> in the order they are made, to state interleavings:
  \<open>run_store\<close> gives the result of every \<open>Consume\<close>, tagged with its token.
\<close>

datatype store_op = Register string int | Consume string

fun token_of :: "store_op \<Rightarrow> string" where
  "token_of (Register t c) = t"
| "token_of (Consume t) = t"

fun run_store :: "store_op list \<Rightarrow> world \<Rightarrow> (string \<times> (py_error + int)) list \<times> world" where
  "run_store [] w = ([], w)"
| "run_store (Register t c # ops) w = run_store ops (register t c w)"
| "run_store (Consume t # ops) w =
     (case consume t w of
        (r, w1) \<Rightarrow> (case run_store ops w1 of (rs, w2) \<Rightarrow> ((t, r) # rs, w2)))"

definition results_for :: "string \<Rightarrow> store_op list \<Rightarrow> world \<Rightarrow> (py_error + int) list" where
  "results_for t ops w = map snd (filter (\<lambda>(t', r). t' = t) (fst (run_store ops w)))"

text \<open>
  The producers of the queue. \<^verbatim>\<open>CustomUpdater._signal_handler\<close> puts \<^verbatim>\<open>True\<close>;
  \<^verbatim>\<open>oauth2callback\<close> (\<^verbatim>\<open>engine/fastapi/web.py\<close>) puts a dict with the state alone when
  the redirect carries \<^verbatim>\<open>error\<close>, puts nothing when the grant exchange fails, and a dict
  with state and credentials otherwise. \<open>token\<close> is the result of \<^verbatim>\<open>get_authz_token\<close>:
  \<open>None\<close> for \<^verbatim>\<open>InvalidGrantError\<close>.
\<close>

definition signal_handler :: "ipc_data list \<Rightarrow> ipc_data list" where
  "signal_handler queue = queue @ [put Shutdown]"

definition oauth2callback :: "string \<Rightarrow> string option \<Rightarrow> string option \<Rightarrow> ipc_data list \<Rightarrow> ipc_data list" where
  "oauth2callback state error token queue =
     (if error \<noteq> None then queue @ [put (Denied state)]
      else case token of
             None \<Rightarrow> queue
           | Some credentials \<Rightarrow> queue @ [put (Granted state credentials)])"




section \<open>Calendar gateway (\<^verbatim>\<open>engine/gcalendar/gcal_handlers.py\<close>)\<close>

text \<open>
  The calendar provider and the \<^verbatim>\<open>validate_email\<close> package are external: their answers
  are parameters. A credentials object is its JSON string (the stored strings are the
  ones \<^verbatim>\<open>to_json\<close> wrote, so parsing them does not fail). \<open>refreshed creds\<close> is
  \<open>Some new\<close> when the credentials are expired, carry a refresh token and the refresh
  gives \<open>new\<close>. An ACL rule is (rule id, scope value, role); a calendar list entry is
  (id, access role).
\<close>

record env =
  authorization_url :: "string \<times> string"
  refreshed :: "string \<Rightarrow> string option"
  calendar_list :: "string \<Rightarrow> py_error + (string \<times> string) list"
  acl_list :: "string \<Rightarrow> string \<Rightarrow> py_error + (string \<times> string \<times> string) list"
  acl_insert :: "string \<Rightarrow> string \<Rightarrow> string \<Rightarrow> string \<Rightarrow> py_error + unit"
  acl_delete :: "string \<Rightarrow> string \<Rightarrow> string \<Rightarrow> py_error + unit"
  validate_email :: "string \<Rightarrow> bool"

definition FREE_BUSY_READER :: string where
  "FREE_BUSY_READER = ''freeBusyReader''"

definition READER :: string where
  "READER = ''reader''"

definition WRITER :: string where
  "WRITER = ''writer''"

definition called :: "gcal_call \<Rightarrow> world \<Rightarrow> world" where
  "called g w = w\<lparr>gcal_calls := gcal_calls w @ [g]\<rparr>"

definition get_authz_link :: "env \<Rightarrow> world \<Rightarrow> (string \<times> string) \<times> world" where
  "get_authz_link e w = (authorization_url e, called AuthorizationUrl w)"

definition get_calendars :: "env \<Rightarrow> string \<Rightarrow> world \<Rightarrow> (py_error + string list) \<times> world" where
  "get_calendars e creds w =
     (case calendar_list e creds of
        Inl err \<Rightarrow> (Inl err, called (CalendarListList creds) w)
      | Inr items \<Rightarrow>
          (Inr (map fst (filter (\<lambda>cal. snd cal = ''owner'') items)),
           called (CalendarListList creds) w))"

definition get_acl_users :: "env \<Rightarrow> string \<Rightarrow> string \<Rightarrow> world \<Rightarrow> (py_error + (string \<times> string) list) \<times> world" where
  "get_acl_users e creds calendar w =
     (case acl_list e creds calendar of
        Inl err \<Rightarrow> (Inl err, called (AclList creds calendar) w)
      | Inr items \<Rightarrow>
          (Inr (map (\<lambda>(rid, name, role). (name, role))
                  (filter (\<lambda>(rid, name, role). role \<noteq> ''owner'') items)),
           called (AclList creds calendar) w))"

fun delete_rules :: "env \<Rightarrow> string \<Rightarrow> string \<Rightarrow> string list \<Rightarrow> world \<Rightarrow> (py_error + unit) \<times> world" where
  "delete_rules e creds calendar [] w = (Inr (), w)"
| "delete_rules e creds calendar (rid # rids) w =
     (case acl_delete e creds calendar rid of
        Inl err \<Rightarrow> (Inl err, called (AclDelete creds calendar rid) w)
      | Inr _ \<Rightarrow> delete_rules e creds calendar rids (called (AclDelete creds calendar rid) w))"

definition delete_acl_user :: "env \<Rightarrow> string \<Rightarrow> string \<Rightarrow> string \<Rightarrow> world \<Rightarrow> (py_error + unit) \<times> world" where
  "delete_acl_user e creds calendar username w =
     (case acl_list e creds calendar of
        Inl err \<Rightarrow> (Inl err, called (AclList creds calendar) w)
      | Inr items \<Rightarrow>
          delete_rules e creds calendar
            (map fst (filter (\<lambda>(rid, name, role). name = username) items))
            (called (AclList creds calendar) w))"

definition add_acl_user :: "env \<Rightarrow> string \<Rightarrow> string \<Rightarrow> string \<Rightarrow> string \<Rightarrow> world \<Rightarrow> (py_error + unit) \<times> world" where
  "add_acl_user e creds calendar username access_type w =
     (acl_insert e creds calendar username access_type,
      called (AclInsert creds calendar username access_type) w)"

definition str_to_credentials :: "env \<Rightarrow> int \<Rightarrow> string \<Rightarrow> world \<Rightarrow> (py_error + string) \<times> world" where
  "str_to_credentials e c creds w =
     (case refreshed e creds of
        None \<Rightarrow> (Inr creds, w)
      | Some new \<Rightarrow>
          (case update_credentials c new (called (RefreshToken creds) w) of
             (Inl err, w1) \<Rightarrow> (Inl err, w1)
           | (Inr _, w1) \<Rightarrow> (Inr new, w1)))"

section \<open>Conversation engine (\<^verbatim>\<open>engine/tg/tg_handlers.py\<close>)\<close>

text \<open>
  An update of one chat: a text message (its id and text) or a pressed inline button
  (its callback data and the id of the message that carries the keyboard).
\<close>

record update =
  effective_chat_id :: int
  upd_message :: "(int \<times> string) option"
  upd_callback_query :: "(string \<times> int) option"

definition CALLBACK_DELIMITER :: char where
  "CALLBACK_DELIMITER = CHR ''#''"

text \<open>\<^verbatim>\<open>str.split(sep)\<close> for a one-character separator.\<close>

fun split :: "char \<Rightarrow> string \<Rightarrow> string list" where
  "split d [] = [[]]"
| "split d (x # xs) =
     (if x = d then [] # split d xs
      else case split d xs of
             [] \<Rightarrow> [[x]]
           | p # ps \<Rightarrow> (x # p) # ps)"

text \<open>\<^verbatim>\<open>cmd, arg = data.split(CALLBACK_DELIMITER)\<close>: \<^verbatim>\<open>ValueError\<close> unless there are two parts.\<close>

definition unpack_callback :: "string \<Rightarrow> py_error + (string \<times> string)" where
  "unpack_callback d =
     (case split CALLBACK_DELIMITER d of
        [cmd, arg] \<Rightarrow> Inr (cmd, arg)
      | _ \<Rightarrow> Inl ValueError)"

definition callback_with :: "string \<Rightarrow> string \<Rightarrow> string" where
  "callback_with name arg = name @ [CALLBACK_DELIMITER] @ arg"

definition default_keyboard :: "string \<Rightarrow> markup" where
  "default_keyboard calendar =
     [[(BUTTON_BACK, callback_with ''select_calendar_inline'' calendar),
       (BUTTON_START, ''start'')],
      [(BUTTON_FINISH, ''finish_conversation'')]]"

definition calendar_keyboard :: "string \<Rightarrow> markup" where
  "calendar_keyboard calendar =
     [[(BUTTON_SHOW_SHARE, callback_with ''show_share_inline'' calendar)],
      [(BUTTON_ADD_SHARE, callback_with ''add_share_inline'' calendar)],
      [(BUTTON_DEL_SHARE, callback_with ''delete_share_inline'' calendar)],
      [(BUTTON_START, ''start''), (BUTTON_FINISH, ''finish_conversation'')]]"

definition add_share_keyboard :: "string \<Rightarrow> string \<Rightarrow> markup" where
  "add_share_keyboard calendar username =
     [[(BUTTON_FREE_BUSY, callback_with ''add_share_inline_freebusy'' username)],
      [(BUTTON_READER, callback_with ''add_share_inline_reader'' username),
       (BUTTON_WRITER, callback_with ''add_share_inline_writer'' username)],
      [(BUTTON_BACK, callback_with ''select_calendar_inline'' calendar),
       (BUTTON_START, ''start'')],
      [(BUTTON_FINISH, ''finish_conversation'')]]"

definition initial_keyboard :: "string list \<Rightarrow> markup" where
  "initial_keyboard calendars =
     map (\<lambda>calendar. [(BUTTON_CALENDAR calendar, callback_with ''select_calendar_inline'' calendar)])
       calendars
     @ [[(BUTTON_REVOKE_AUTHZ, ''revoke_authz_inline''),
         (BUTTON_FINISH, ''finish_conversation'')]]"

definition set_session :: "int \<Rightarrow> session \<Rightarrow> world \<Rightarrow> world" where
  "set_session c s w = w\<lparr>chat_data := (chat_data w)(c := s)\<rparr>"

definition answer :: "world \<Rightarrow> world" where
  "answer w = w\<lparr>api_calls := api_calls w @ [AnswerCallbackQuery]\<rparr>"

definition start :: "env \<Rightarrow> update \<Rightarrow> world \<Rightarrow> (py_error + conv_state) \<times> world" where
  "start e u w =
     (let c = effective_chat_id u in
      if \<not> credentials_exists c w then
        (case get_authz_link e w of
           ((url, state), w1) \<Rightarrow>
             (Inr STATE_END,
              snd (send_message c (TG_AUTHZ_URL url) None None (register state c w1))))
      else
        (case get_credentials c w of
          Inl err \<Rightarrow> (Inl err, w)
        | Inr blob \<Rightarrow>
        (case str_to_credentials e c blob w of
          (Inl err, w1) \<Rightarrow> (Inl err, w1)
        | (Inr credentials, w1) \<Rightarrow>
        (case get_calendars e credentials w1 of
          (Inl err, w2) \<Rightarrow> (Inl err, w2)
        | (Inr calendars, w2) \<Rightarrow>
        (case upd_message u of
          Some (mid, txt) \<Rightarrow>
            (case inline_msg (chat_data w2 c) of
               Some reply_to \<Rightarrow>
                 (Inr STATE_CALENDAR_SELECTION,
                  snd (send_message c TG_KEYBOARD_ACTIVE (Some reply_to) None w2))
             | None \<Rightarrow>
                 (case send_message c PROMPT_INITIAL_MENU None
                         (Some (initial_keyboard calendars)) w2 of
                    (msg_id, w3) \<Rightarrow>
                      (Inr STATE_CALENDAR_SELECTION,
                       set_session c
                         ((chat_data w3 c)\<lparr>initial_msg := Some mid, inline_msg := Some msg_id\<rparr>)
                         w3)))
        | None \<Rightarrow>
            (case upd_callback_query u of
               None \<Rightarrow> (Inl AttributeError, w2)
             | Some (d, kb) \<Rightarrow>
                 (case edit_message_text c kb PROMPT_INITIAL_MENU (initial_keyboard calendars)
                         (answer w2) of
                    (Inl BadRequest, w3) \<Rightarrow> (Inr STATE_CALENDAR_SELECTION, w3)
                  | (Inl err, w3) \<Rightarrow> (Inl err, w3)
                  | (Inr _, w3) \<Rightarrow> (Inr STATE_CALENDAR_SELECTION, w3))))))))"

definition help_cmd :: "update \<Rightarrow> world \<Rightarrow> world" where
  "help_cmd u w = snd (send_message (effective_chat_id u) TG_HELP None None w)"

definition unknown_cmd :: "update \<Rightarrow> world \<Rightarrow> world" where
  "unknown_cmd u w = snd (send_message (effective_chat_id u) TG_UNKNOWN None None w)"

definition show_calendars_text :: "env \<Rightarrow> int \<Rightarrow> world \<Rightarrow> (py_error + tg_text) \<times> world" where
  "show_calendars_text e c w =
     (case get_credentials c w of
        Inl err \<Rightarrow> (Inl err, w)
      | Inr blob \<Rightarrow>
      (case str_to_credentials e c blob w of
        (Inl err, w1) \<Rightarrow> (Inl err, w1)
      | (Inr credentials, w1) \<Rightarrow>
      (case get_calendars e credentials w1 of
        (Inl err, w2) \<Rightarrow> (Inl err, w2)
      | (Inr calendars, w2) \<Rightarrow> (Inr (CALENDAR_LINES calendars), w2))))"

definition GCAL_MAP :: "string \<rightharpoonup> access_text" where
  "GCAL_MAP = [FREE_BUSY_READER \<mapsto> ACCESS_FREE_BUSY, READER \<mapsto> ACCESS_READ, WRITER \<mapsto> ACCESS_WRITE]"

definition GCAL_MAP_keys :: "string list" where
  "GCAL_MAP_keys = [FREE_BUSY_READER, READER, WRITER]"

fun gcal_entries :: "(string \<times> string) list \<Rightarrow> py_error + (string \<times> access_text) list" where
  "gcal_entries [] = Inr []"
| "gcal_entries ((name, role) # recs) =
     (case GCAL_MAP role of
        None \<Rightarrow> Inl KeyError
      | Some access \<Rightarrow>
          (case gcal_entries recs of
             Inl err \<Rightarrow> Inl err
           | Inr ls \<Rightarrow> Inr ((name, access) # ls)))"

definition show_share_text :: "env \<Rightarrow> int \<Rightarrow> string \<Rightarrow> world \<Rightarrow> (py_error + tg_text) \<times> world" where
  "show_share_text e c calendar w =
     (case get_credentials c w of
        Inl err \<Rightarrow> (Inl err, w)
      | Inr blob \<Rightarrow>
      (case str_to_credentials e c blob w of
        (Inl err, w1) \<Rightarrow> (Inl err, w1)
      | (Inr credentials, w1) \<Rightarrow>
      (case get_acl_users e credentials calendar w1 of
        (Inl err, w2) \<Rightarrow> (Inl err, w2)
      | (Inr users_list, w2) \<Rightarrow>
          (case gcal_entries users_list of
             Inl err \<Rightarrow> (Inl err, w2)
           | Inr ls \<Rightarrow> (Inr (GCAL_ENTRY_LINES ls), w2)))))"

definition add_share_text :: "env \<Rightarrow> int \<Rightarrow> string \<Rightarrow> string \<Rightarrow> string \<Rightarrow> world \<Rightarrow> (py_error + tg_text) \<times> world" where
  "add_share_text e c calendar email access_type w =
     (case get_credentials c w of
        Inl err \<Rightarrow> (Inl err, w)
      | Inr blob \<Rightarrow>
      (case str_to_credentials e c blob w of
        (Inl err, w1) \<Rightarrow> (Inl err, w1)
      | (Inr credentials, w1) \<Rightarrow>
      (case add_acl_user e credentials calendar email access_type w1 of
        (Inl err, w2) \<Rightarrow> (Inl err, w2)
      | (Inr _, w2) \<Rightarrow> (Inr (TG_USER_ADDED email access_type calendar), w2))))"

definition delete_share_text :: "env \<Rightarrow> int \<Rightarrow> string \<Rightarrow> string \<Rightarrow> world \<Rightarrow> (py_error + tg_text) \<times> world" where
  "delete_share_text e c calendar email w =
     (case get_credentials c w of
        Inl err \<Rightarrow> (Inl err, w)
      | Inr blob \<Rightarrow>
      (case str_to_credentials e c blob w of
        (Inl err, w1) \<Rightarrow> (Inl err, w1)
      | (Inr credentials, w1) \<Rightarrow>
      (case delete_acl_user e credentials calendar email w1 of
        (Inl err, w2) \<Rightarrow> (Inl err, w2)
      | (Inr _, w2) \<Rightarrow> (Inr (TG_USER_DELETED email calendar), w2))))"

definition revoke_authz_text :: "int \<Rightarrow> world \<Rightarrow> tg_text \<times> world" where
  "revoke_authz_text c w = (TG_REVOKE_AUTHZ, delete_credentials c w)"

text \<open>Direct commands; \<open>args\<close> is \<^verbatim>\<open>context.args\<close>.\<close>

definition show_calendars :: "env \<Rightarrow> update \<Rightarrow> world \<Rightarrow> (py_error + unit) \<times> world" where
  "show_calendars e u w =
     (let c = effective_chat_id u in
      case show_calendars_text e c w of
        (Inl err, w1) \<Rightarrow> (Inl err, w1)
      | (Inr t, w1) \<Rightarrow> (Inr (), snd (send_message c t None None w1)))"

definition show_share :: "env \<Rightarrow> string list \<Rightarrow> update \<Rightarrow> world \<Rightarrow> (py_error + unit) \<times> world" where
  "show_share e args u w =
     (let c = effective_chat_id u in
      if length args \<noteq> 1 then
        (Inr (), snd (send_message c (TG_INVALID_ARG_NUM 1) None None w))
      else
        (case show_share_text e c (args ! 0) w of
           (Inl (HttpError details), w1) \<Rightarrow>
             (Inr (), snd (send_message c (TG_CALENDAR_NOT_FOUND details) None None w1))
         | (Inl err, w1) \<Rightarrow> (Inl err, w1)
         | (Inr t, w1) \<Rightarrow> (Inr (), snd (send_message c t None None w1))))"

definition add_share :: "env \<Rightarrow> string list \<Rightarrow> update \<Rightarrow> world \<Rightarrow> (py_error + unit) \<times> world" where
  "add_share e args u w =
     (let c = effective_chat_id u in
      if length args \<noteq> 3 then
        (Inr (), snd (send_message c (TG_INVALID_ARG_NUM 3) None None w))
      else if \<not> validate_email e (args ! 1) then
        (Inr (), snd (send_message c TG_EMAIL_INVALID None None w))
      else if GCAL_MAP (args ! 2) = None then
        (Inr (), snd (send_message c (TG_ROLE_INVALID GCAL_MAP_keys) None None w))
      else
        (case add_share_text e c (args ! 0) (args ! 1) (args ! 2) w of
           (Inl (HttpError details), w1) \<Rightarrow>
             (Inr (), snd (send_message c (TG_CALENDAR_NOT_FOUND details) None None w1))
         | (Inl err, w1) \<Rightarrow> (Inl err, w1)
         | (Inr t, w1) \<Rightarrow> (Inr (), snd (send_message c t None None w1))))"

definition delete_share :: "env \<Rightarrow> string list \<Rightarrow> update \<Rightarrow> world \<Rightarrow> (py_error + unit) \<times> world" where
  "delete_share e args u w =
     (let c = effective_chat_id u in
      if length args \<noteq> 2 then
        (Inr (), snd (send_message c (TG_INVALID_ARG_NUM 2) None None w))
      else if \<not> validate_email e (args ! 1) then
        (Inr (), snd (send_message c TG_EMAIL_INVALID None None w))
      else
        (case delete_share_text e c (args ! 0) (args ! 1) w of
           (Inl (HttpError details), w1) \<Rightarrow>
             (Inr (), snd (send_message c (TG_CALENDAR_NOT_FOUND details) None None w1))
         | (Inl err, w1) \<Rightarrow> (Inl err, w1)
         | (Inr t, w1) \<Rightarrow> (Inr (), snd (send_message c t None None w1))))"

definition revoke_authz :: "update \<Rightarrow> world \<Rightarrow> world" where
  "revoke_authz u w =
     (let c = effective_chat_id u in
      case revoke_authz_text c w of
        (t, w1) \<Rightarrow> snd (send_message c t None None w1))"

text \<open>Conversation callback handlers.\<close>

definition select_calendar_inline :: "update \<Rightarrow> world \<Rightarrow> (py_error + conv_state) \<times> world" where
  "select_calendar_inline u w =
     (case upd_callback_query u of
        None \<Rightarrow> (Inl AttributeError, w)
      | Some (d, kb) \<Rightarrow>
          (case unpack_callback d of
             Inl err \<Rightarrow> (Inl err, w)
           | Inr (cmd, calendar) \<Rightarrow>
               (case edit_message_text (effective_chat_id u) kb (PROMPT_CHOOSE_ACTION calendar)
                       (calendar_keyboard calendar) w of
                  (Inl err, w1) \<Rightarrow> (Inl err, w1)
                | (Inr _, w1) \<Rightarrow> (Inr STATE_ACTION_SELECTION, w1))))"

definition show_share_inline :: "env \<Rightarrow> update \<Rightarrow> world \<Rightarrow> (py_error + conv_state) \<times> world" where
  "show_share_inline e u w =
     (let c = effective_chat_id u in
      case upd_callback_query u of
        None \<Rightarrow> (Inl AttributeError, w)
      | Some (d, kb) \<Rightarrow>
          (case unpack_callback d of
             Inl err \<Rightarrow> (Inl err, w)
           | Inr (cmd, calendar) \<Rightarrow>
               (case show_share_text e c calendar w of
                  (Inl err, w1) \<Rightarrow> (Inl err, w1)
                | (Inr t, w1) \<Rightarrow>
                    (case edit_message_text c kb t (default_keyboard calendar) w1 of
                       (Inl err, w2) \<Rightarrow> (Inl err, w2)
                     | (Inr _, w2) \<Rightarrow> (Inr STATE_ACTION_SELECTION, w2)))))"

definition add_share_inline :: "update \<Rightarrow> world \<Rightarrow> (py_error + conv_state) \<times> world" where
  "add_share_inline u w =
     (let c = effective_chat_id u in
      case upd_callback_query u of
        None \<Rightarrow> (Inl AttributeError, w)
      | Some (d, kb) \<Rightarrow>
          (case unpack_callback d of
             Inl err \<Rightarrow> (Inl err, w)
           | Inr (cmd, calendar) \<Rightarrow>
               (case edit_message_text c kb (PROMPT_SHARE_EMAIL calendar) (default_keyboard calendar)
                       (set_session c ((chat_data w c)\<lparr>calendar_name := Some calendar\<rparr>) w) of
                  (Inl err, w1) \<Rightarrow> (Inl err, w1)
                | (Inr _, w1) \<Rightarrow> (Inr STATE_ADD_SHARE, w1))))"

definition add_share_inline_email :: "env \<Rightarrow> update \<Rightarrow> world \<Rightarrow> (py_error + conv_state) \<times> world" where
  "add_share_inline_email e u w =
     (let c = effective_chat_id u in
      case inline_msg (chat_data w c) of
        None \<Rightarrow> (Inl KeyError, w)
      | Some message_id \<Rightarrow>
      (case calendar_name (chat_data w c) of
        None \<Rightarrow> (Inl KeyError, w)
      | Some calendar \<Rightarrow>
      (case upd_message u of
        None \<Rightarrow> (Inl AttributeError, w)
      | Some (mid, email) \<Rightarrow>
          if \<not> validate_email e email then
            (case edit_message_text c message_id PROMPT_NOT_EMAIL (default_keyboard calendar)
                    (delete_message c mid w) of
               (Inl BadRequest, w1) \<Rightarrow> (Inr STATE_ADD_SHARE, w1)
             | (Inl err, w1) \<Rightarrow> (Inl err, w1)
             | (Inr _, w1) \<Rightarrow> (Inr STATE_ADD_SHARE, w1))
          else
            (case edit_message_text c message_id (PROMPT_CHOOSE_ROLE email calendar)
                    (add_share_keyboard calendar email) (delete_message c mid w) of
               (Inl err, w1) \<Rightarrow> (Inl err, w1)
             | (Inr _, w1) \<Rightarrow> (Inr STATE_ADD_SHARE_ROLE, w1)))))"

definition add_share_inline_role :: "env \<Rightarrow> update \<Rightarrow> string \<Rightarrow> world \<Rightarrow> (py_error + conv_state) \<times> world" where
  "add_share_inline_role e u access_type w =
     (let c = effective_chat_id u in
      case inline_msg (chat_data w c) of
        None \<Rightarrow> (Inl KeyError, w)
      | Some message_id \<Rightarrow>
      (case calendar_name (chat_data w c) of
        None \<Rightarrow> (Inl KeyError, w)
      | Some calendar \<Rightarrow>
      (case upd_callback_query u of
        None \<Rightarrow> (Inl AttributeError, set_session c ((chat_data w c)\<lparr>calendar_name := None\<rparr>) w)
      | Some (d, kb) \<Rightarrow>
      (case unpack_callback d of
        Inl err \<Rightarrow> (Inl err, set_session c ((chat_data w c)\<lparr>calendar_name := None\<rparr>) w)
      | Inr (cmd, email) \<Rightarrow>
      (case add_share_text e c calendar email access_type
              (set_session c ((chat_data w c)\<lparr>calendar_name := None\<rparr>) w) of
        (Inl err, w1) \<Rightarrow> (Inl err, w1)
      | (Inr t, w1) \<Rightarrow>
          (case edit_message_text c message_id t (default_keyboard calendar) w1 of
             (Inl err, w2) \<Rightarrow> (Inl err, w2)
           | (Inr _, w2) \<Rightarrow> (Inr STATE_ACTION_SELECTION, w2)))))))"

definition add_share_inline_freebusy :: "env \<Rightarrow> update \<Rightarrow> world \<Rightarrow> (py_error + conv_state) \<times> world" where
  "add_share_inline_freebusy e u w = add_share_inline_role e u FREE_BUSY_READER w"

definition add_share_inline_reader :: "env \<Rightarrow> update \<Rightarrow> world \<Rightarrow> (py_error + conv_state) \<times> world" where
  "add_share_inline_reader e u w = add_share_inline_role e u READER w"

definition add_share_inline_writer :: "env \<Rightarrow> update \<Rightarrow> world \<Rightarrow> (py_error + conv_state) \<times> world" where
  "add_share_inline_writer e u w = add_share_inline_role e u WRITER w"

definition delete_share_inline :: "update \<Rightarrow> world \<Rightarrow> (py_error + conv_state) \<times> world" where
  "delete_share_inline u w =
     (let c = effective_chat_id u in
      case upd_callback_query u of
        None \<Rightarrow> (Inl AttributeError, w)
      | Some (d, kb) \<Rightarrow>
          (case unpack_callback d of
             Inl err \<Rightarrow> (Inl err, w)
           | Inr (cmd, calendar) \<Rightarrow>
               (case edit_message_text c kb (PROMPT_DELETE_EMAIL calendar) (default_keyboard calendar)
                       (set_session c ((chat_data w c)\<lparr>calendar_name := Some calendar\<rparr>) w) of
                  (Inl err, w1) \<Rightarrow> (Inl err, w1)
                | (Inr _, w1) \<Rightarrow> (Inr STATE_DELETE_SHARE, w1))))"

definition delete_share_inline_email :: "env \<Rightarrow> update \<Rightarrow> world \<Rightarrow> (py_error + conv_state) \<times> world" where
  "delete_share_inline_email e u w =
     (let c = effective_chat_id u in
      case inline_msg (chat_data w c) of
        None \<Rightarrow> (Inl KeyError, w)
      | Some message_id \<Rightarrow>
      (case calendar_name (chat_data w c) of
        None \<Rightarrow> (Inl KeyError, w)
      | Some calendar \<Rightarrow>
      (case upd_message u of
        None \<Rightarrow> (Inl AttributeError, w)
      | Some (mid, email) \<Rightarrow>
          if \<not> validate_email e email then
            (case edit_message_text c message_id PROMPT_NOT_EMAIL (default_keyboard calendar)
                    (delete_message c mid w) of
               (Inl BadRequest, w1) \<Rightarrow> (Inr STATE_DELETE_SHARE, w1)
             | (Inl err, w1) \<Rightarrow> (Inl err, w1)
             | (Inr _, w1) \<Rightarrow> (Inr STATE_DELETE_SHARE, w1))
          else
            (case delete_share_text e c calendar email (delete_message c mid w) of
               (Inl err, w1) \<Rightarrow> (Inl err, w1)
             | (Inr t, w1) \<Rightarrow>
                 (case edit_message_text c message_id t (default_keyboard calendar)
                         (set_session c ((chat_data w1 c)\<lparr>calendar_name := None\<rparr>) w1) of
                    (Inl err, w2) \<Rightarrow> (Inl err, w2)
                  | (Inr _, w2) \<Rightarrow> (Inr STATE_ACTION_SELECTION, w2))))))"

definition finish_conversation :: "update \<Rightarrow> world \<Rightarrow> (py_error + conv_state) \<times> world" where
  "finish_conversation u w =
     (let c = effective_chat_id u in
      case inline_msg (chat_data w c) of
        None \<Rightarrow> (Inl KeyError, w)
      | Some inline_msg_id \<Rightarrow>
      (case initial_msg (chat_data w c) of
        None \<Rightarrow> (Inl KeyError, set_session c ((chat_data w c)\<lparr>inline_msg := None\<rparr>) w)
      | Some initial_msg_id \<Rightarrow>
      (case edit_message_reply_markup_none c inline_msg_id (set_session c no_session w) of
        (Inl err, w1) \<Rightarrow> (Inl err, w1)
      | (Inr _, w1) \<Rightarrow>
          (Inr STATE_END, delete_message c initial_msg_id (delete_message c inline_msg_id w1)))))"

definition revoke_authz_inline :: "update \<Rightarrow> world \<Rightarrow> (py_error + conv_state) \<times> world" where
  "revoke_authz_inline u w =
     (let c = effective_chat_id u in
      case revoke_authz_text c w of
        (t, w1) \<Rightarrow> finish_conversation u (snd (send_message c t None None w1)))"

section \<open>Routing (\<^verbatim>\<open>start_bot\<close>)\<close>

text \<open>
  The \<^verbatim>\<open>ConversationHandler\<close> that \<^verbatim>\<open>start_bot\<close> builds. A \<^verbatim>\<open>CallbackQueryHandler\<close> pattern
  \<^verbatim>\<open>^name\<close> matches callback data that starts with the name, \<^verbatim>\<open>^name$\<close> data equal to
  it; \<^verbatim>\<open>CommandHandler(name)\<close> matches a text message whose first word is \<^verbatim>\<open>/name\<close>;
  \<^verbatim>\<open>Filters.text & ~Filters.command\<close> a text message that does not start with \<^verbatim>\<open>/\<close>.
  In a state the handlers of that state are tried in order, then the fallbacks; with no
  conversation running, the entry points. The value the handler returns becomes the
  conversation's state, \<^verbatim>\<open>ConversationHandler.END\<close> ends the conversation, and a handler
  that raises leaves the state as it was.
\<close>

datatype trigger =
    CallbackPrefix string
  | CallbackExact string
  | Command string
  | TextNotCommand

datatype handler =
    H_start
  | H_select_calendar_inline
  | H_revoke_authz_inline
  | H_finish_conversation
  | H_show_share_inline
  | H_add_share_inline
  | H_delete_share_inline
  | H_add_share_inline_email
  | H_add_share_inline_freebusy
  | H_add_share_inline_reader
  | H_add_share_inline_writer
  | H_delete_share_inline_email

fun starts_with :: "string \<Rightarrow> string \<Rightarrow> bool" where
  "starts_with [] s = True"
| "starts_with (p # ps) [] = False"
| "starts_with (p # ps) (x # xs) = (p = x \<and> starts_with ps xs)"

definition command_of :: "string \<Rightarrow> string option" where
  "command_of txt =
     (case txt of
        [] \<Rightarrow> None
      | x # xs \<Rightarrow>
          if x = CHR ''/'' then Some (takeWhile (\<lambda>y. y \<noteq> CHR '' '' \<and> y \<noteq> CHR ''@'') xs)
          else None)"

fun check_update :: "trigger \<Rightarrow> update \<Rightarrow> bool" where
  "check_update (CallbackPrefix name) u =
     (case upd_callback_query u of None \<Rightarrow> False | Some (d, kb) \<Rightarrow> starts_with name d)"
| "check_update (CallbackExact name) u =
     (case upd_callback_query u of None \<Rightarrow> False | Some (d, kb) \<Rightarrow> d = name)"
| "check_update (Command name) u =
     (case upd_message u of None \<Rightarrow> False | Some (mid, txt) \<Rightarrow> command_of txt = Some name)"
| "check_update TextNotCommand u =
     (case upd_message u of None \<Rightarrow> False | Some (mid, txt) \<Rightarrow> command_of txt = None)"

definition calendar_selection_handlers :: "(trigger \<times> handler) list" where
  "calendar_selection_handlers =
     [(CallbackPrefix ''select_calendar_inline'', H_select_calendar_inline),
      (CallbackPrefix ''revoke_authz_inline'', H_revoke_authz_inline),
      (CallbackExact ''finish_conversation'', H_finish_conversation)]"

definition action_selection_handlers :: "(trigger \<times> handler) list" where
  "action_selection_handlers =
     [(CallbackPrefix ''show_share_inline'', H_show_share_inline),
      (CallbackPrefix ''add_share_inline'', H_add_share_inline),
      (CallbackPrefix ''delete_share_inline'', H_delete_share_inline),
      (CallbackPrefix ''select_calendar_inline'', H_select_calendar_inline),
      (CallbackExact ''finish_conversation'', H_finish_conversation),
      (CallbackExact ''start'', H_start)]"

definition add_share_handlers :: "(trigger \<times> handler) list" where
  "add_share_handlers =
     [(TextNotCommand, H_add_share_inline_email),
      (CallbackPrefix ''select_calendar_inline'', H_select_calendar_inline),
      (CallbackExact ''finish_conversation'', H_finish_conversation),
      (CallbackExact ''start'', H_start)]"

definition add_share_role_handlers :: "(trigger \<times> handler) list" where
  "add_share_role_handlers =
     [(CallbackPrefix ''add_share_inline_freebusy'', H_add_share_inline_freebusy),
      (CallbackPrefix ''add_share_inline_reader'', H_add_share_inline_reader),
      (CallbackPrefix ''add_share_inline_writer'', H_add_share_inline_writer),
      (CallbackPrefix ''select_calendar_inline'', H_select_calendar_inline),
      (CallbackExact ''finish_conversation'', H_finish_conversation),
      (CallbackExact ''start'', H_start)]"

definition delete_share_handlers :: "(trigger \<times> handler) list" where
  "delete_share_handlers =
     [(TextNotCommand, H_delete_share_inline_email),
      (CallbackPrefix ''select_calendar_inline'', H_select_calendar_inline),
      (CallbackExact ''finish_conversation'', H_finish_conversation),
      (CallbackExact ''start'', H_start)]"

definition entry_points :: "(trigger \<times> handler) list" where
  "entry_points = [(Command ''start'', H_start)]"

definition fallbacks :: "(trigger \<times> handler) list" where
  "fallbacks = [(Command ''start'', H_start)]"

fun states :: "conv_state \<Rightarrow> (trigger \<times> handler) list" where
  "states STATE_CALENDAR_SELECTION = calendar_selection_handlers"
| "states STATE_ACTION_SELECTION = action_selection_handlers"
| "states STATE_ADD_SHARE = add_share_handlers"
| "states STATE_ADD_SHARE_ROLE = add_share_role_handlers"
| "states STATE_DELETE_SHARE = delete_share_handlers"
| "states STATE_FINISH = []"
| "states STATE_END = []"

fun first_match :: "(trigger \<times> handler) list \<Rightarrow> update \<Rightarrow> handler option" where
  "first_match [] u = None"
| "first_match ((t, h) # hs) u = (if check_update t u then Some h else first_match hs u)"

definition find_handler :: "conv_state option \<Rightarrow> update \<Rightarrow> handler option" where
  "find_handler cur u =
     (case cur of
        None \<Rightarrow> first_match entry_points u
      | Some s \<Rightarrow> first_match (states s @ fallbacks) u)"

fun run_handler :: "env \<Rightarrow> handler \<Rightarrow> update \<Rightarrow> world \<Rightarrow> (py_error + conv_state) \<times> world" where
  "run_handler e H_start u w = start e u w"
| "run_handler e H_select_calendar_inline u w = select_calendar_inline u w"
| "run_handler e H_revoke_authz_inline u w = revoke_authz_inline u w"
| "run_handler e H_finish_conversation u w = finish_conversation u w"
| "run_handler e H_show_share_inline u w = show_share_inline e u w"
| "run_handler e H_add_share_inline u w = add_share_inline u w"
| "run_handler e H_delete_share_inline u w = delete_share_inline u w"
| "run_handler e H_add_share_inline_email u w = add_share_inline_email e u w"
| "run_handler e H_add_share_inline_freebusy u w = add_share_inline_freebusy e u w"
| "run_handler e H_add_share_inline_reader u w = add_share_inline_reader e u w"
| "run_handler e H_add_share_inline_writer u w = add_share_inline_writer e u w"
| "run_handler e H_delete_share_inline_email u w = delete_share_inline_email e u w"

text \<open>
  One update through the conversation handler: the conversation's state afterwards
  (\<open>None\<close> when no conversation is running), the exception that escaped the handler
  if any, and the state of the world.
\<close>

definition conv_handler :: "env \<Rightarrow> conv_state option \<Rightarrow> update \<Rightarrow> world \<Rightarrow> conv_state option \<times> py_error option \<times> world" where
  "conv_handler e cur u w =
     (case find_handler cur u of
        None \<Rightarrow> (cur, None, w)
      | Some h \<Rightarrow>
          (case run_handler e h u w of
             (Inl err, w1) \<Rightarrow> (cur, Some err, w1)
           | (Inr new_state, w1) \<Rightarrow>
               (if new_state = STATE_END then None else Some new_state, None, w1)))"

section \<open>Example inputs\<close>

text \<open>
  A provider that answers every call, one whose calendar calls fail with
  \<^verbatim>\<open>HttpError\<close>, and a chat (id 7) in the middle of a conversation: credentials stored,
  the command message 10 and the keyboard message 11 in the chat.
\<close>

definition example_env :: env where
  "example_env =
     \<lparr>authorization_url = (''https://accounts.example/auth'', ''T''),
      refreshed = (\<lambda>creds. None),
      calendar_list = (\<lambda>creds. Inr [(''mycal'', ''owner''), (''other'', ''reader'')]),
      acl_list = (\<lambda>creds calendar. Inr [(''r1'', ''bob@example.com'', ''reader'')]),
      acl_insert = (\<lambda>creds calendar username access_type. Inr ()),
      acl_delete = (\<lambda>creds calendar rid. Inr ()),
      validate_email = (\<lambda>email. CHR ''@'' \<in> set email)\<rparr>"

definition failing_env :: env where
  "failing_env =
     example_env
       \<lparr>acl_list := (\<lambda>creds calendar. Inl (HttpError ''Not Found'')),
        acl_insert := (\<lambda>creds calendar username access_type. Inl (HttpError ''Not Found''))\<rparr>"

definition example_world :: "tg_text \<Rightarrow> markup \<Rightarrow> string option \<Rightarrow> world" where
  "example_world t m pending =
     \<lparr>bot_data = Map.empty,
      chat_data = (\<lambda>c. no_session)
        (7 := \<lparr>initial_msg = Some 10, inline_msg = Some 11, calendar_name = pending\<rparr>),
      db = [7 \<mapsto> ''creds''],
      shown = [(7, 11) \<mapsto> (t, Some m)],
      next_message_id = 12,
      api_calls = [],
      gcal_calls = [],
      logged = []\<rparr>"

definition text_update :: "int \<Rightarrow> string \<Rightarrow> update" where
  "text_update mid txt =
     \<lparr>effective_chat_id = 7, upd_message = Some (mid, txt), upd_callback_query = None\<rparr>"

definition button_update :: "string \<Rightarrow> update" where
  "button_update d =
     \<lparr>effective_chat_id = 7, upd_message = None, upd_callback_query = Some (d, 11)\<rparr>"

section \<open>Unfolding sets\<close>

lemmas example_defs = example_world_def example_env_def failing_env_def text_update_def
  button_update_def no_session_def world0_def

lemmas handler_defs = start_def select_calendar_inline_def show_share_inline_def
  add_share_inline_def add_share_inline_email_def add_share_inline_role_def
  add_share_inline_reader_def delete_share_inline_def delete_share_inline_email_def
  finish_conversation_def show_share_def add_share_def delete_share_def

lemmas routing_defs = conv_handler_def find_handler_def fallbacks_def entry_points_def
  calendar_selection_handlers_def action_selection_handlers_def add_share_handlers_def
  add_share_role_handlers_def delete_share_handlers_def command_of_def

lemmas api_defs = send_message_def edit_message_text_def edit_message_reply_markup_none_def
  delete_message_def answer_def set_session_def

lemmas gcal_defs = credentials_exists_def get_credentials_def str_to_credentials_def
  get_calendars_def get_acl_users_def add_acl_user_def delete_acl_user_def called_def
  show_share_text_def add_share_text_def delete_share_text_def update_credentials_def
  get_authz_link_def GCAL_MAP_def FREE_BUSY_READER_def READER_def WRITER_def

lemmas kb_defs = default_keyboard_def calendar_keyboard_def add_share_keyboard_def
  initial_keyboard_def callback_with_def CALLBACK_DELIMITER_def unpack_callback_def

lemmas dispatcher_defs = webauth_callback_body_def consume_def register_def
  create_credentials_def credentials_exists_def send_message_def STATE_KEY_def
  CREDENTIALS_KEY_def

section \<open>Correlation store\<close>

lemma consume_absent:
  "bot_data w t = None \<Longrightarrow> consume t w = (Inl KeyError, w)"
  by (simp add: consume_def)

lemma consume_other:
  "t' \<noteq> t \<Longrightarrow> bot_data (snd (consume t' w)) t = bot_data w t"
  by (simp add: consume_def split: option.splits)

lemma register_other:
  "t' \<noteq> t \<Longrightarrow> bot_data (register t' c w) t = bot_data w t"
  by (simp add: register_def)

lemma run_store_Consume:
  "run_store (Consume t # ops) w =
     ((t, fst (consume t w)) # fst (run_store ops (snd (consume t w))),
      snd (run_store ops (snd (consume t w))))"
  by (simp split: prod.splits)

lemma run_store_append:
  "run_store (xs @ ys) w =
     (case run_store xs w of (rs, w1) \<Rightarrow> (case run_store ys w1 of (rs', w2) \<Rightarrow> (rs @ rs', w2)))"
proof (induction xs arbitrary: w)
  case Nil
  then show ?case by simp
next
  case (Cons x xs)
  then show ?case by (cases x) (simp_all split: prod.splits)
qed

lemma snd_run_store_append:
  "snd (run_store (xs @ ys) w) = snd (run_store ys (snd (run_store xs w)))"
  by (simp add: run_store_append split: prod.splits)

text \<open>Operations on other tokens neither change what a token maps to nor add results for it.\<close>

lemma run_store_other:
  "t \<notin> token_of ` set ops \<Longrightarrow>
     bot_data (snd (run_store ops w)) t = bot_data w t \<and>
     filter (\<lambda>(t', r). t' = t) (fst (run_store ops w)) = []"
proof (induction ops arbitrary: w)
  case Nil
  then show ?case by simp
next
  case (Cons x ops)
  then have ih: "\<And>w'. bot_data (snd (run_store ops w')) t = bot_data w' t \<and>
      filter (\<lambda>(t', r). t' = t) (fst (run_store ops w')) = []"
    by simp
  show ?case
  proof (cases x)
    case (Register t' c)
    with Cons.prems have "t' \<noteq> t" by auto
    with Register ih show ?thesis by (simp add: register_other)
  next
    case (Consume t')
    with Cons.prems have "t' \<noteq> t" by auto
    with Consume ih show ?thesis
      by (simp only: run_store_Consume fst_conv snd_conv) (simp add: consume_other)
  qed
qed

lemma lookup_after_other:
  "t \<notin> token_of ` set ops \<Longrightarrow> bot_data (snd (run_store ops w)) t = bot_data w t"
  by (simp add: run_store_other)

lemma results_for_other:
  "t \<notin> token_of ` set ops \<Longrightarrow> results_for t ops w = []"
  by (simp add: results_for_def run_store_other)

lemma results_for_append:
  "results_for t (xs @ ys) w = results_for t xs w @ results_for t ys (snd (run_store xs w))"
  by (simp add: results_for_def run_store_append split: prod.splits)

lemma results_for_Consume:
  "results_for t (Consume t # ops) w =
     fst (consume t w) # results_for t ops (snd (consume t w))"
  by (simp add: results_for_def split: prod.splits)

lemma results_for_Register:
  "results_for t (Register t c # ops) w = results_for t ops (register t c w)"
  by (simp add: results_for_def)

lemma never_registered:
  "bot_data w t = None \<Longrightarrow> \<forall>c. Register t c \<notin> set ops \<Longrightarrow>
     set (results_for t ops w) \<subseteq> {Inl KeyError}"
proof (induction ops arbitrary: w)
  case Nil
  show ?case by (simp add: results_for_def)
next
  case (Cons x ops)
  show ?case
  proof (cases x)
    case (Register t' c)
    with Cons.prems have "t' \<noteq> t" by auto
    with Cons.prems have "bot_data (register t' c w) t = None"
      by (simp add: register_other)
    with Cons Register show ?thesis by (simp add: results_for_def)
  next
    case (Consume t')
    show ?thesis
    proof (cases "t' = t")
      case True
      with Cons Consume show ?thesis
        by (simp add: results_for_Consume consume_absent)
    next
      case False
      with Cons.prems have "bot_data (snd (consume t' w)) t = None"
        by (simp add: consume_other)
      with Cons.IH [of "snd (consume t' w)"] Cons.prems
      have "set (results_for t ops (snd (consume t' w))) \<subseteq> {Inl KeyError}" by simp
      with False Consume show ?thesis
        by (simp add: results_for_def run_store_Consume del: run_store.simps)
    qed
  qed
qed

text \<open>
  C1 (as amended). A token \<open>t\<close> that the store does not hold is registered once, to
  chat \<open>c\<close>, and consumed twice, with any operations on other tokens in between. When
  at least one consume follows the register, exactly one consume succeeds, with \<open>c\<close>,
  and the other raises \<^verbatim>\<open>KeyError\<close> (NotFound); when both consumes come before the
  register, both raise \<^verbatim>\<open>KeyError\<close>. A token that is never registered raises
  \<^verbatim>\<open>KeyError\<close> on every consume.
\<close>

theorem consume_at_most_once:
  assumes fresh: "bot_data w t = None"
    and others: "t \<notin> token_of ` (set a \<union> set b \<union> set d \<union> set e)"
  shows "results_for t (a @ Register t c # b @ Consume t # d @ Consume t # e) w = [Inr c, Inl KeyError] \<and>
     results_for t (a @ Consume t # b @ Register t c # d @ Consume t # e) w = [Inl KeyError, Inr c] \<and>
     results_for t (a @ Consume t # b @ Consume t # d @ Register t c # e) w = [Inl KeyError, Inl KeyError] \<and>
     ((\<forall>c'. Register t c' \<notin> set ops) \<longrightarrow> set (results_for t ops w) \<subseteq> {Inl KeyError})"
proof -
  from others have "t \<notin> token_of ` set a" "t \<notin> token_of ` set b"
    "t \<notin> token_of ` set d" "t \<notin> token_of ` set e"
    by auto
  with fresh have
    "results_for t (a @ Register t c # b @ Consume t # d @ Consume t # e) w = [Inr c, Inl KeyError]"
    "results_for t (a @ Consume t # b @ Register t c # d @ Consume t # e) w = [Inl KeyError, Inr c]"
    "results_for t (a @ Consume t # b @ Consume t # d @ Register t c # e) w = [Inl KeyError, Inl KeyError]"
    by (simp_all add: results_for_append results_for_other results_for_Consume results_for_Register
        snd_run_store_append lookup_after_other consume_def register_def)
  with never_registered [OF fresh, of ops] show ?thesis by blast
qed

text \<open>The theorem at token \<open>T\<close>, chat 7, with traffic on another token \<open>U\<close>.\<close>

theorem consume_at_most_once_witness:
  "results_for ''T''
      ([Register ''U'' 1] @ Register ''T'' 7 # [Consume ''U''] @ Consume ''T'' # [] @ Consume ''T'' # [Consume ''U''])
      world0 = [Inr 7, Inl KeyError] \<and>
   results_for ''T''
      ([Register ''U'' 1] @ Consume ''T'' # [Consume ''U''] @ Register ''T'' 7 # [] @ Consume ''T'' # [Consume ''U''])
      world0 = [Inl KeyError, Inr 7] \<and>
   set (results_for ''T'' [Consume ''T'', Register ''U'' 1, Consume ''T''] world0) \<subseteq> {Inl KeyError}"
  using consume_at_most_once [of world0 "''T''" "[Register ''U'' 1]" "[Consume ''U'']" "[]"
      "[Consume ''U'']" 7 "[Consume ''T'', Register ''U'' 1, Consume ''T'']"]
  by (simp add: world0_def)

text \<open>
  C1 as stated fails when both consumes precede the register: the token is registered
  once and consumed twice, and no consume succeeds.
\<close>

theorem both_consumes_before_register:
  "results_for ''T'' [Consume ''T'', Consume ''T'', Register ''T'' 7] world0 =
     [Inl KeyError, Inl KeyError]"
  by (simp add: results_for_def consume_def register_def world0_def)

section \<open>Authorization link issuance\<close>

text \<open>
  C3 (as amended). Registering never fails and there is no duplicate check: when the chat
  has no stored credentials, \<^verbatim>\<open>start\<close> returns \<^verbatim>\<open>ConversationHandler.END\<close>, sends the
  authorization URL, and maps the fresh state string to the chat in \<^verbatim>\<open>bot_data\<close>,
  replacing whatever that string was mapped to before and leaving every other entry as
  it was.
\<close>

theorem start_registers:
  assumes "\<not> credentials_exists (effective_chat_id u) w"
  shows "fst (start e u w) = Inr STATE_END \<and>
     bot_data (snd (start e u w)) = (bot_data w)(snd (authorization_url e) \<mapsto> effective_chat_id u) \<and>
     api_calls (snd (start e u w)) =
       api_calls w @ [SendMessage (effective_chat_id u) (TG_AUTHZ_URL (fst (authorization_url e))) None]"
  using assms
  by (simp add: start_def get_authz_link_def called_def register_def send_message_def
      case_prod_beta Let_def)

text \<open>The theorem for chat 2, with the state string \<open>T\<close> and another one already stored.\<close>

theorem start_registers_witness:
  "\<not> credentials_exists 2 (register ''T'' 1 (register ''U'' 5 world0)) \<and>
   fst (start example_env ((text_update 1 ''/start'')\<lparr>effective_chat_id := 2\<rparr>)
          (register ''T'' 1 (register ''U'' 5 world0))) = Inr STATE_END \<and>
   bot_data (snd (start example_env ((text_update 1 ''/start'')\<lparr>effective_chat_id := 2\<rparr>)
          (register ''T'' 1 (register ''U'' 5 world0)))) = [''U'' \<mapsto> 5, ''T'' \<mapsto> 2]"
  using start_registers [of "(text_update 1 ''/start'')\<lparr>effective_chat_id := 2\<rparr>"
      "register ''T'' 1 (register ''U'' 5 world0)" example_env]
  by (simp add: credentials_exists_def register_def world0_def example_env_def text_update_def)

text \<open>
  C3 as stated fails: the state string \<open>T\<close> is already mapped to chat 1 when chat 2 asks
  for a link and the provider hands out \<open>T\<close> again; \<^verbatim>\<open>start\<close> returns normally and
  \<open>T\<close> now maps to chat 2.
\<close>

theorem register_overwrites:
  "bot_data (register ''T'' 1 world0) ''T'' = Some 1 \<and>
   start example_env \<lparr>effective_chat_id = 2, upd_message = Some (1, ''/start''), upd_callback_query = None\<rparr>
       (register ''T'' 1 world0) =
     (Inr STATE_END,
      world0\<lparr>bot_data := [''T'' \<mapsto> 2],
        shown := [(2, 1) \<mapsto> (TG_AUTHZ_URL ''https://accounts.example/auth'', None)],
        next_message_id := 2,
        api_calls := [SendMessage 2 (TG_AUTHZ_URL ''https://accounts.example/auth'') None],
        gcal_calls := [AuthorizationUrl]\<rparr>)"
  by (simp add: start_def get_authz_link_def called_def register_def send_message_def
      credentials_exists_def world0_def example_env_def Let_def)

section \<open>Handoff dispatcher\<close>

lemma producers_put:
  "oauth2callback state (Some err) token queue = queue @ [put (Denied state)]"
  "oauth2callback state None (Some credentials) queue = queue @ [put (Granted state credentials)]"
  "oauth2callback state None None queue = queue"
  "signal_handler queue = queue @ [PyBool True]"
  by (simp_all add: oauth2callback_def signal_handler_def)

lemma body_put_Continue:
  "m \<noteq> Shutdown \<Longrightarrow>
     webauth_callback_body (put m) w = Continue (after (webauth_callback_body (put m) w))"
  by (cases m)
    (simp_all add: webauth_callback_body_def STATE_KEY_def CREDENTIALS_KEY_def
      split: prod.splits sum.splits option.splits)

lemma webauth_callback_Continue:
  "webauth_callback_body ipc w = Continue w' \<Longrightarrow>
     webauth_callback (ipc # queue) w = webauth_callback queue w'"
  by simp

text \<open>An object that is neither a \<^verbatim>\<open>bool\<close> nor a \<^verbatim>\<open>dict\<close> is logged and dropped.\<close>

lemma unknown_type_dropped:
  "webauth_callback (PyOther ty # queue) w =
     webauth_callback queue (w\<lparr>logged := logged w @ [LOG_UNKNOWN_TYPE ty]\<rparr>)"
  by (simp add: webauth_callback_body_def)

text \<open>A dict that carries the state key never ends the loop, whatever else it holds.\<close>

lemma keyed_dict_continues:
  "d STATE_KEY = Some state \<Longrightarrow> \<exists>w'. webauth_callback_body (PyDict d) w = Continue w'"
  by (simp add: webauth_callback_body_def split: prod.splits sum.splits option.splits)







text \<open>
  C4 (as amended). When the dispatcher receives \<open>Granted\<close> for a state string \<open>t\<close>
  registered to chat \<open>c\<close>, with credentials \<open>b\<close>, the loop goes on, \<open>t\<close> is removed
  from \<^verbatim>\<open>bot_data\<close>, chat \<open>c\<close> is sent \<open>TG_AUTH_COMPLETE\<close>, and the table holds \<open>b\<close> for
  \<open>c\<close> if it held no record for \<open>c\<close>; a record that \<open>c\<close> already has is left as it is.
\<close>

theorem granted_handoff:
  assumes "bot_data w t = Some c"
  shows "\<exists>w'. webauth_callback_body (put (Granted t b)) w = Continue w' \<and>
     bot_data w' = (bot_data w)(t := None) \<and>
     db w' = (if db w c = None then (db w)(c \<mapsto> b) else db w) \<and>
     api_calls w' = api_calls w @ [SendMessage c TG_AUTH_COMPLETE None]"
  using assms
  by (simp add: dispatcher_defs)

text \<open>The theorem for the state string \<open>T\<close> of chat 7, which has no record yet.\<close>

theorem granted_handoff_witness:
  "\<exists>w'. webauth_callback_body (put (Granted ''T'' ''B'')) (register ''T'' 7 world0) = Continue w' \<and>
     bot_data w' = Map.empty \<and> db w' = [7 \<mapsto> ''B''] \<and>
     api_calls w' = [SendMessage 7 TG_AUTH_COMPLETE None]"
  using granted_handoff [of "register ''T'' 7 world0" "''T''" 7 "''B''"]
  by (simp add: register_def world0_def)

text \<open>
  C4 as stated fails for a chat that already has a record (it asked for two links and
  completed both): the record keeps the old credentials \<open>B0\<close>, not the delivered \<open>B\<close>,
  and the chat is still told that authorization is complete.
\<close>

theorem granted_keeps_old_blob:
  "webauth_callback_body (put (Granted ''T'' ''B''))
      (world0\<lparr>bot_data := [''T'' \<mapsto> 7], db := [7 \<mapsto> ''B0'']\<rparr>) =
   Continue (world0\<lparr>bot_data := Map.empty, db := [7 \<mapsto> ''B0''],
      shown := [(7, 1) \<mapsto> (TG_AUTH_COMPLETE, None)], next_message_id := 2,
      api_calls := [SendMessage 7 TG_AUTH_COMPLETE None]\<rparr>)"
  by (simp add: dispatcher_defs world0_def)

text \<open>
  C7. For every sequence \<open>ms\<close> of N messages other than \<open>Shutdown\<close>, followed by
  \<open>Shutdown\<close> and by anything at all: the loop exits, the world is the one that the loop
  body produces from the N messages taken one by one in queue order, and everything
  behind the sentinel is left in the queue.
\<close>

theorem shutdown_determinism:
  "Shutdown \<notin> set ms \<Longrightarrow>
     webauth_callback (map put ms @ put Shutdown # rest) w =
       (Exited, rest, foldl (\<lambda>w' m. after (webauth_callback_body (put m) w')) w ms)"
proof (induction ms arbitrary: w)
  case Nil
  show ?case by (simp add: webauth_callback_body_def)
next
  case (Cons m ms)
  then have "m \<noteq> Shutdown" and rest: "Shutdown \<notin> set ms" by auto
  have "webauth_callback (put m # map put ms @ put Shutdown # rest) w =
      webauth_callback (map put ms @ put Shutdown # rest) (after (webauth_callback_body (put m) w))"
    by (rule webauth_callback_Continue [OF body_put_Continue [OF \<open>m \<noteq> Shutdown\<close>]])
  with Cons.IH [OF rest] show ?case by simp
qed

text \<open>The theorem for two messages before the sentinel and one behind it.\<close>

theorem shutdown_determinism_witness:
  "webauth_callback
     [put (Granted ''T'' ''B''), put (Denied ''U''), put Shutdown, put (Granted ''V'' ''B2'')]
     (register ''V'' 9 (register ''T'' 7 world0)) =
   (Exited, [put (Granted ''V'' ''B2'')],
    foldl (\<lambda>w' m. after (webauth_callback_body (put m) w'))
      (register ''V'' 9 (register ''T'' 7 world0)) [Granted ''T'' ''B'', Denied ''U''])"
  using shutdown_determinism [of "[Granted ''T'' ''B'', Denied ''U'']" "[put (Granted ''V'' ''B2'')]"
      "register ''V'' 9 (register ''T'' 7 world0)"]
  by simp

section \<open>Revoking authorization\<close>

text \<open>
  C10. Deleting the record of a chat twice gives the table that deleting it once gives,
  no record is left, and the \<^verbatim>\<open>revoke_authz\<close> command deletes the record and sends
  \<open>TG_REVOKE_AUTHZ\<close>, whatever the table held for the chat.
\<close>

theorem revoke_idempotent:
  "delete_credentials c (delete_credentials c w) = delete_credentials c w \<and>
   \<not> credentials_exists c (delete_credentials c w) \<and>
   fst (revoke_authz_text c w) = TG_REVOKE_AUTHZ \<and>
   db (revoke_authz u w) = (db w)(effective_chat_id u := None) \<and>
   api_calls (revoke_authz u w) = api_calls w @ [SendMessage (effective_chat_id u) TG_REVOKE_AUTHZ None]"
  by (simp add: delete_credentials_def credentials_exists_def revoke_authz_text_def revoke_authz_def
      send_message_def Let_def)

section \<open>Conversation engine\<close>

lemma edit_message_text_frame:
  "edit_message_text c mid t m w = (r, w') \<Longrightarrow>
     chat_data w' = chat_data w \<and> db w' = db w \<and> bot_data w' = bot_data w \<and>
     api_calls w' = api_calls w @ [EditMessageText c mid t m] \<and>
     (r = Inl BadRequest \<or> r = Inr ())"
  by (auto simp: edit_message_text_def Let_def split: option.splits if_splits)

lemma edit_message_text_shown:
  "shown w (c, mid) \<noteq> None \<Longrightarrow>
     shown (snd (edit_message_text c mid t m w)) (c, mid) = Some (t, Some m)"
  by (auto simp: edit_message_text_def Let_def split: option.splits)

lemma delete_message_frame:
  "chat_data (delete_message c mid w) = chat_data w \<and>
   api_calls (delete_message c mid w) = api_calls w @ [DeleteMessage c mid]"
  by (simp add: delete_message_def)

subsection \<open>A second \<^verbatim>\<open>/start\<close>\<close>

text \<open>
  What holds of the guard in \<^verbatim>\<open>start\<close>: a typed \<^verbatim>\<open>/start\<close> while a keyboard is active
  leaves \<^verbatim>\<open>chat_data\<close> as it is, and when the handler returns it has sent
  \<open>TG_KEYBOARD_ACTIVE\<close> as a reply to the keyboard message.
\<close>

lemma second_start_keeps_session:
  assumes "upd_message u = Some (mid, txt)"
    and "inline_msg (chat_data w (effective_chat_id u)) = Some pm"
    and "start e u w = (r, w')"
  shows "chat_data w' = chat_data w"
  using assms
  by (auto simp: start_def Let_def api_defs gcal_defs register_def
      split: if_splits sum.splits prod.splits option.splits)

lemma second_start_reply:
  assumes "upd_message u = Some (mid, txt)"
    and "inline_msg (chat_data w (effective_chat_id u)) = Some pm"
    and "credentials_exists (effective_chat_id u) w"
    and "start e u w = (Inr s, w')"
  shows "s = STATE_CALENDAR_SELECTION \<and>
     api_calls w' = api_calls w @ [SendMessage (effective_chat_id u) TG_KEYBOARD_ACTIVE (Some pm)]"
  using assms
  by (auto simp: start_def Let_def api_defs gcal_defs
      split: if_splits sum.splits prod.splits option.splits)

text \<open>
  C5. The claim: a second typed \<^verbatim>\<open>/start\<close> leaves the session's state (current state,
  message ids, pending calendar name) unchanged. The code for a chat that is being asked
  for an e-mail (\<open>STATE_ADD_SHARE\<close>): the fallback runs \<^verbatim>\<open>start\<close>, which replies that
  another keyboard is active, leaves \<^verbatim>\<open>chat_data\<close> alone and returns
  \<open>STATE_CALENDAR_SELECTION\<close>, so the conversation leaves \<open>STATE_ADD_SHARE\<close>; the e-mail
  the user then types finds no handler.
\<close>

theorem second_start_resets_state:
  "conv_handler example_env (Some STATE_ADD_SHARE) (text_update 20 ''/start'')
     (example_world (PROMPT_SHARE_EMAIL ''mycal'') (default_keyboard ''mycal'') (Some ''mycal'')) =
   (Some STATE_CALENDAR_SELECTION, None,
    (example_world (PROMPT_SHARE_EMAIL ''mycal'') (default_keyboard ''mycal'') (Some ''mycal''))
      \<lparr>shown := [(7, 11) \<mapsto> (PROMPT_SHARE_EMAIL ''mycal'', Some (default_keyboard ''mycal'')),
                 (7, 12) \<mapsto> (TG_KEYBOARD_ACTIVE, None)],
       next_message_id := 13,
       api_calls := [SendMessage 7 TG_KEYBOARD_ACTIVE (Some 11)],
       gcal_calls := [CalendarListList ''creds'']\<rparr>) \<and>
   find_handler (Some STATE_ADD_SHARE) (text_update 21 ''user@example.com'') =
     Some H_add_share_inline_email \<and>
   find_handler (Some STATE_CALENDAR_SELECTION) (text_update 21 ''user@example.com'') = None"
  by (simp add: routing_defs handler_defs example_defs api_defs gcal_defs Let_def)

subsection \<open>E-mail input\<close>

lemma find_handler_add_share_text:
  "upd_message u = Some (mid, txt) \<Longrightarrow> command_of txt = None \<Longrightarrow>
     find_handler (Some STATE_ADD_SHARE) u = Some H_add_share_inline_email"
  by (simp add: find_handler_def add_share_handlers_def)

lemma find_handler_delete_share_text:
  "upd_message u = Some (mid, txt) \<Longrightarrow> command_of txt = None \<Longrightarrow>
     find_handler (Some STATE_DELETE_SHARE) u = Some H_delete_share_inline_email"
  by (simp add: find_handler_def delete_share_handlers_def)

lemma add_share_inline_email_invalid:
  assumes "upd_message u = Some (mid, txt)" and "\<not> validate_email e txt"
    and "add_share_inline_email e u w = (r, w')"
  shows "(r = Inr STATE_ADD_SHARE \<or> r = Inl KeyError) \<and> chat_data w' = chat_data w"
  using assms
  by (auto simp: add_share_inline_email_def Let_def delete_message_frame
      split: option.splits prod.splits sum.splits py_error.splits
      dest!: edit_message_text_frame)

lemma add_share_inline_email_reprompt:
  assumes "upd_message u = Some (mid, txt)" and "\<not> validate_email e txt"
    and "inline_msg (chat_data w (effective_chat_id u)) = Some pm"
    and "calendar_name (chat_data w (effective_chat_id u)) = Some cal"
    and "add_share_inline_email e u w = (r, w')"
  shows "r = Inr STATE_ADD_SHARE \<and>
     api_calls w' = api_calls w @
       [DeleteMessage (effective_chat_id u) mid,
        EditMessageText (effective_chat_id u) pm PROMPT_NOT_EMAIL (default_keyboard cal)]"
  using assms
  by (auto simp: add_share_inline_email_def Let_def delete_message_frame
      split: option.splits prod.splits sum.splits py_error.splits
      dest!: edit_message_text_frame)

lemma add_share_inline_email_forward:
  assumes "upd_message u = Some (mid, txt)"
    and "add_share_inline_email e u w = (Inr s, w')" and "s \<noteq> STATE_ADD_SHARE"
  shows "validate_email e txt \<and> s = STATE_ADD_SHARE_ROLE"
  using assms
  by (auto simp: add_share_inline_email_def Let_def
      split: option.splits prod.splits sum.splits py_error.splits if_splits)

lemma delete_share_inline_email_invalid:
  assumes "upd_message u = Some (mid, txt)" and "\<not> validate_email e txt"
    and "delete_share_inline_email e u w = (r, w')"
  shows "(r = Inr STATE_DELETE_SHARE \<or> r = Inl KeyError) \<and> chat_data w' = chat_data w"
  using assms
  by (auto simp: delete_share_inline_email_def Let_def delete_message_frame
      split: option.splits prod.splits sum.splits py_error.splits
      dest!: edit_message_text_frame)

lemma delete_share_inline_email_reprompt:
  assumes "upd_message u = Some (mid, txt)" and "\<not> validate_email e txt"
    and "inline_msg (chat_data w (effective_chat_id u)) = Some pm"
    and "calendar_name (chat_data w (effective_chat_id u)) = Some cal"
    and "delete_share_inline_email e u w = (r, w')"
  shows "r = Inr STATE_DELETE_SHARE \<and>
     api_calls w' = api_calls w @
       [DeleteMessage (effective_chat_id u) mid,
        EditMessageText (effective_chat_id u) pm PROMPT_NOT_EMAIL (default_keyboard cal)]"
  using assms
  by (auto simp: delete_share_inline_email_def Let_def delete_message_frame
      split: option.splits prod.splits sum.splits py_error.splits
      dest!: edit_message_text_frame)

lemma delete_share_inline_email_forward:
  assumes "upd_message u = Some (mid, txt)"
    and "delete_share_inline_email e u w = (Inr s, w')" and "s \<noteq> STATE_DELETE_SHARE"
  shows "validate_email e txt \<and> s = STATE_ACTION_SELECTION"
  using assms
  by (auto simp: delete_share_inline_email_def Let_def
      split: option.splits prod.splits sum.splits py_error.splits if_splits)

lemma email_reprompt_shown:
  assumes "upd_message u = Some (mid, txt)" and "\<not> validate_email e txt"
    and "inline_msg (chat_data w (effective_chat_id u)) = Some pm"
    and "calendar_name (chat_data w (effective_chat_id u)) = Some cal"
    and "shown w (effective_chat_id u, pm) \<noteq> None" and "pm \<noteq> mid"
  shows "shown (snd (add_share_inline_email e u w)) (effective_chat_id u, pm) =
           Some (PROMPT_NOT_EMAIL, Some (default_keyboard cal))"
    and "shown (snd (delete_share_inline_email e u w)) (effective_chat_id u, pm) =
           Some (PROMPT_NOT_EMAIL, Some (default_keyboard cal))"
proof -
  let ?c = "effective_chat_id u"
  let ?w1 = "delete_message ?c mid w"
  let ?r = "edit_message_text ?c pm PROMPT_NOT_EMAIL (default_keyboard cal) ?w1"
  from assms have "shown ?w1 (?c, pm) \<noteq> None"
    by (simp add: delete_message_def)
  then have sh: "shown (snd ?r) (?c, pm) = Some (PROMPT_NOT_EMAIL, Some (default_keyboard cal))"
    by (rule edit_message_text_shown)
  obtain r w1 where r: "?r = (r, w1)" by (cases ?r)
  then have "r = Inl BadRequest \<or> r = Inr ()"
    by (auto dest: edit_message_text_frame)
  with assms r have "snd (add_share_inline_email e u w) = w1"
    and "snd (delete_share_inline_email e u w) = w1"
    by (auto simp: add_share_inline_email_def delete_share_inline_email_def Let_def)
  with sh r show "shown (snd (add_share_inline_email e u w)) (?c, pm) =
           Some (PROMPT_NOT_EMAIL, Some (default_keyboard cal))"
    and "shown (snd (delete_share_inline_email e u w)) (?c, pm) =
           Some (PROMPT_NOT_EMAIL, Some (default_keyboard cal))"
    by simp_all
qed

text \<open>
  C6. A text message that is not a command arrives in \<open>STATE_ADD_SHARE\<close> or
  \<open>STATE_DELETE_SHARE\<close>. If the text is not a valid e-mail, the conversation stays in its
  state and every chat's \<^verbatim>\<open>chat_data\<close> is unchanged; with the keyboard message and the
  calendar name in \<^verbatim>\<open>chat_data\<close> (they are, in these states) no exception escapes, the
  user's message is deleted and the keyboard message is edited to \<open>PROMPT_NOT_EMAIL\<close>,
  which it then shows. If the conversation leaves its state, the text is a valid e-mail
  and the new state is \<open>STATE_ADD_SHARE_ROLE\<close> (from \<open>STATE_ADD_SHARE\<close>) or
  \<open>STATE_ACTION_SELECTION\<close> (from \<open>STATE_DELETE_SHARE\<close>).
\<close>

theorem email_gate:
  assumes msg: "upd_message u = Some (mid, txt)" and plain: "command_of txt = None"
    and st: "s = STATE_ADD_SHARE \<or> s = STATE_DELETE_SHARE"
    and run: "conv_handler e (Some s) u w = (s', err, w')"
  shows "(\<not> validate_email e txt \<longrightarrow>
            s' = Some s \<and> chat_data w' = chat_data w \<and>
            (\<forall>pm cal. inline_msg (chat_data w (effective_chat_id u)) = Some pm \<and>
                calendar_name (chat_data w (effective_chat_id u)) = Some cal \<longrightarrow>
                err = None \<and>
                api_calls w' = api_calls w @
                  [DeleteMessage (effective_chat_id u) mid,
                   EditMessageText (effective_chat_id u) pm PROMPT_NOT_EMAIL (default_keyboard cal)] \<and>
                (shown w (effective_chat_id u, pm) \<noteq> None \<and> pm \<noteq> mid \<longrightarrow>
                   shown w' (effective_chat_id u, pm) =
                     Some (PROMPT_NOT_EMAIL, Some (default_keyboard cal))))) \<and>
         (s' \<noteq> Some s \<longrightarrow>
            validate_email e txt \<and>
            s' = Some (if s = STATE_ADD_SHARE then STATE_ADD_SHARE_ROLE else STATE_ACTION_SELECTION))"
proof (cases "s = STATE_ADD_SHARE")
  case True
  obtain r w1 where h: "add_share_inline_email e u w = (r, w1)"
    by (cases "add_share_inline_email e u w")
  with run True msg plain have res: "(s', err, w') =
      (case r of Inl x \<Rightarrow> (Some s, Some x, w1)
       | Inr n \<Rightarrow> (if n = STATE_END then None else Some n, None, w1))"
    by (cases r) (auto simp: conv_handler_def find_handler_add_share_text)
  show ?thesis
  proof (intro conjI impI allI)
    assume inv: "\<not> validate_email e txt"
    from add_share_inline_email_invalid [OF msg inv h] res True
    show "s' = Some s" and "chat_data w' = chat_data w" by auto
  next
    fix pm cal
    assume inv: "\<not> validate_email e txt"
      and keys: "inline_msg (chat_data w (effective_chat_id u)) = Some pm \<and>
        calendar_name (chat_data w (effective_chat_id u)) = Some cal"
    from add_share_inline_email_reprompt [OF msg inv _ _ h, of pm cal] keys res
    show "err = None" and "api_calls w' = api_calls w @
        [DeleteMessage (effective_chat_id u) mid,
         EditMessageText (effective_chat_id u) pm PROMPT_NOT_EMAIL (default_keyboard cal)]"
      by auto
    assume "shown w (effective_chat_id u, pm) \<noteq> None \<and> pm \<noteq> mid"
    with email_reprompt_shown(1) [OF msg inv, of w pm cal] keys h res
    show "shown w' (effective_chat_id u, pm) = Some (PROMPT_NOT_EMAIL, Some (default_keyboard cal))"
      by (auto split: sum.splits)
  next
    assume "s' \<noteq> Some s"
    with res True obtain n where n: "r = Inr n" "n \<noteq> STATE_ADD_SHARE"
      "s' = (if n = STATE_END then None else Some n)"
      by (cases r) (auto split: if_splits)
    with add_share_inline_email_forward [OF msg, of e w n w1] h True
    show "validate_email e txt"
      and "s' = Some (if s = STATE_ADD_SHARE then STATE_ADD_SHARE_ROLE else STATE_ACTION_SELECTION)"
      by auto
  qed
next
  case False
  with st have sd: "s = STATE_DELETE_SHARE" by simp
  obtain r w1 where h: "delete_share_inline_email e u w = (r, w1)"
    by (cases "delete_share_inline_email e u w")
  with run sd msg plain have res: "(s', err, w') =
      (case r of Inl x \<Rightarrow> (Some s, Some x, w1)
       | Inr n \<Rightarrow> (if n = STATE_END then None else Some n, None, w1))"
    by (cases r) (auto simp: conv_handler_def find_handler_delete_share_text)
  show ?thesis
  proof (intro conjI impI allI)
    assume inv: "\<not> validate_email e txt"
    from delete_share_inline_email_invalid [OF msg inv h] res sd
    show "s' = Some s" and "chat_data w' = chat_data w" by auto
  next
    fix pm cal
    assume inv: "\<not> validate_email e txt"
      and keys: "inline_msg (chat_data w (effective_chat_id u)) = Some pm \<and>
        calendar_name (chat_data w (effective_chat_id u)) = Some cal"
    from delete_share_inline_email_reprompt [OF msg inv _ _ h, of pm cal] keys res
    show "err = None" and "api_calls w' = api_calls w @
        [DeleteMessage (effective_chat_id u) mid,
         EditMessageText (effective_chat_id u) pm PROMPT_NOT_EMAIL (default_keyboard cal)]"
      by auto
    assume "shown w (effective_chat_id u, pm) \<noteq> None \<and> pm \<noteq> mid"
    with email_reprompt_shown(2) [OF msg inv, of w pm cal] keys h res
    show "shown w' (effective_chat_id u, pm) = Some (PROMPT_NOT_EMAIL, Some (default_keyboard cal))"
      by (auto split: sum.splits)
  next
    assume "s' \<noteq> Some s"
    with res sd obtain n where n: "r = Inr n" "n \<noteq> STATE_DELETE_SHARE"
      "s' = (if n = STATE_END then None else Some n)"
      by (cases r) (auto split: if_splits)
    with delete_share_inline_email_forward [OF msg, of e w n w1] h sd
    show "validate_email e txt"
      and "s' = Some (if s = STATE_ADD_SHARE then STATE_ADD_SHARE_ROLE else STATE_ACTION_SELECTION)"
      by auto
  qed
qed

text \<open>
  The theorem at an invalid text in \<open>STATE_ADD_SHARE\<close> and at a valid e-mail in
  \<open>STATE_DELETE_SHARE\<close>.
\<close>

theorem email_gate_witness:
  "\<not> validate_email example_env ''nobody'' \<and>
   conv_handler example_env (Some STATE_ADD_SHARE) (text_update 20 ''nobody'')
     (example_world (PROMPT_SHARE_EMAIL ''mycal'') (default_keyboard ''mycal'') (Some ''mycal'')) =
   (Some STATE_ADD_SHARE, None,
    (example_world PROMPT_NOT_EMAIL (default_keyboard ''mycal'') (Some ''mycal''))
      \<lparr>api_calls := [DeleteMessage 7 20,
          EditMessageText 7 11 PROMPT_NOT_EMAIL (default_keyboard ''mycal'')]\<rparr>) \<and>
   validate_email example_env ''user@example.com'' \<and>
   fst (conv_handler example_env (Some STATE_DELETE_SHARE) (text_update 20 ''user@example.com'')
     (example_world (PROMPT_DELETE_EMAIL ''mycal'') (default_keyboard ''mycal'') (Some ''mycal''))) =
   Some STATE_ACTION_SELECTION"
proof -
  let ?w = "example_world (PROMPT_SHARE_EMAIL ''mycal'') (default_keyboard ''mycal'') (Some ''mycal'')"
  let ?r = "conv_handler example_env (Some STATE_ADD_SHARE) (text_update 20 ''nobody'') ?w"
  let ?w2 = "example_world (PROMPT_DELETE_EMAIL ''mycal'') (default_keyboard ''mycal'') (Some ''mycal'')"
  let ?r2 = "conv_handler example_env (Some STATE_DELETE_SHARE) (text_update 20 ''user@example.com'') ?w2"
  have inv: "\<not> validate_email example_env ''nobody''"
    and val: "validate_email example_env ''user@example.com''"
    by (simp_all add: example_env_def)
  have moved: "fst ?r2 \<noteq> Some STATE_DELETE_SHARE"
    by (simp add: routing_defs handler_defs example_defs api_defs gcal_defs Let_def)
  have r: "?r = (fst ?r, fst (snd ?r), snd (snd ?r))"
    and r2: "?r2 = (fst ?r2, fst (snd ?r2), snd (snd ?r2))"
    by simp_all
  from email_gate [of "text_update 20 ''nobody''" 20 "''nobody''" STATE_ADD_SHARE example_env ?w,
      OF _ _ _ r] inv
  have a: "fst ?r = Some STATE_ADD_SHARE \<and> chat_data (snd (snd ?r)) = chat_data ?w \<and>
      fst (snd ?r) = None \<and>
      api_calls (snd (snd ?r)) = api_calls ?w @ [DeleteMessage 7 20,
          EditMessageText 7 11 PROMPT_NOT_EMAIL (default_keyboard ''mycal'')] \<and>
      shown (snd (snd ?r)) (7, 11) = Some (PROMPT_NOT_EMAIL, Some (default_keyboard ''mycal''))"
    by (simp add: text_update_def command_of_def example_world_def)
  from email_gate [of "text_update 20 ''user@example.com''" 20 "''user@example.com''"
      STATE_DELETE_SHARE example_env ?w2, OF _ _ _ r2] moved
  have b: "fst ?r2 = Some STATE_ACTION_SELECTION"
    by (simp add: text_update_def command_of_def)
  have "?r = (Some STATE_ADD_SHARE, None,
    (example_world PROMPT_NOT_EMAIL (default_keyboard ''mycal'') (Some ''mycal''))
      \<lparr>api_calls := [DeleteMessage 7 20,
          EditMessageText 7 11 PROMPT_NOT_EMAIL (default_keyboard ''mycal'')]\<rparr>)"
    by (simp add: routing_defs handler_defs example_defs api_defs kb_defs Let_def)
  with inv val a b show ?thesis by simp
qed

subsection \<open>Provider errors\<close>

text \<open>
  The direct command catches \<^verbatim>\<open>HttpError\<close>: \<^verbatim>\<open>/add_share unknown-cal user@example.com reader\<close>
  with a provider that fails makes one provider call and sends the detail to the chat.
\<close>

lemma add_share_reports_provider_error:
  "add_share failing_env [''unknown-cal'', ''user@example.com'', ''reader''] (text_update 20 ''/add_share'')
     (example_world PROMPT_INITIAL_MENU (initial_keyboard [''mycal'']) None) =
   (Inr (),
    (example_world PROMPT_INITIAL_MENU (initial_keyboard [''mycal'']) None)
      \<lparr>shown := [(7, 11) \<mapsto> (PROMPT_INITIAL_MENU, Some (initial_keyboard [''mycal''])),
                 (7, 12) \<mapsto> (TG_CALENDAR_NOT_FOUND ''Not Found'', None)],
       next_message_id := 13,
       api_calls := [SendMessage 7 (TG_CALENDAR_NOT_FOUND ''Not Found'') None],
       gcal_calls := [AclInsert ''creds'' ''unknown-cal'' ''user@example.com'' ''reader'']\<rparr>)"
  by (simp add: handler_defs example_defs api_defs gcal_defs Let_def)

text \<open>
  C8. The claim: whenever a provider call fails, in a direct command or in a dialogue
  handler, the detail is sent to the chat and the session is unchanged. The code in the
  dialogue: \<^verbatim>\<open>show_share_inline\<close> and \<^verbatim>\<open>add_share_inline_role\<close> have no \<^verbatim>\<open>try\<close>, so the
  \<^verbatim>\<open>HttpError\<close> escapes the handler and nothing is sent (\<open>api_calls\<close> stays empty);
  \<^verbatim>\<open>add_share_inline_role\<close> has by then removed the calendar name from \<^verbatim>\<open>chat_data\<close>.
\<close>

theorem provider_error_escapes:
  "conv_handler failing_env (Some STATE_ACTION_SELECTION) (button_update ''show_share_inline#mycal'')
     (example_world (PROMPT_CHOOSE_ACTION ''mycal'') (calendar_keyboard ''mycal'') None) =
   (Some STATE_ACTION_SELECTION, Some (HttpError ''Not Found''),
    (example_world (PROMPT_CHOOSE_ACTION ''mycal'') (calendar_keyboard ''mycal'') None)
      \<lparr>gcal_calls := [AclList ''creds'' ''mycal'']\<rparr>) \<and>
   conv_handler failing_env (Some STATE_ADD_SHARE_ROLE)
     (button_update ''add_share_inline_reader#user@example.com'')
     (example_world (PROMPT_CHOOSE_ROLE ''user@example.com'' ''mycal'')
        (add_share_keyboard ''mycal'' ''user@example.com'') (Some ''mycal'')) =
   (Some STATE_ADD_SHARE_ROLE, Some (HttpError ''Not Found''),
    (example_world (PROMPT_CHOOSE_ROLE ''user@example.com'' ''mycal'')
        (add_share_keyboard ''mycal'' ''user@example.com'') None)
      \<lparr>gcal_calls := [AclInsert ''creds'' ''mycal'' ''user@example.com'' ''reader'']\<rparr>)"
  by (simp add: routing_defs handler_defs example_defs api_defs kb_defs gcal_defs Let_def)

subsection \<open>Redundant edits\<close>

text \<open>
  \<^verbatim>\<open>start\<close> swallows the \<^verbatim>\<open>BadRequest\<close> of an edit that changes nothing: pressed as a
  button while the keyboard message already shows the initial menu, it returns its state.
\<close>

lemma start_swallows_redundant_edit:
  "start example_env (button_update ''start'')
     (example_world PROMPT_INITIAL_MENU (initial_keyboard [''mycal'']) None) =
   (Inr STATE_CALENDAR_SELECTION,
    (example_world PROMPT_INITIAL_MENU (initial_keyboard [''mycal'']) None)
      \<lparr>api_calls := [AnswerCallbackQuery,
          EditMessageText 7 11 PROMPT_INITIAL_MENU (initial_keyboard [''mycal''])],
       gcal_calls := [CalendarListList ''creds'']\<rparr>)"
  by (simp add: handler_defs example_defs api_defs gcal_defs Let_def)

text \<open>
  Pressing a calendar button in the initial menu leads to the world in which the same
  button press, delivered once more (a double tap), edits the message to what it shows.
\<close>

lemma first_tap:
  "conv_handler example_env (Some STATE_CALENDAR_SELECTION) (button_update ''select_calendar_inline#mycal'')
     (example_world PROMPT_INITIAL_MENU (initial_keyboard [''mycal'']) None) =
   (Some STATE_ACTION_SELECTION, None,
    (example_world (PROMPT_CHOOSE_ACTION ''mycal'') (calendar_keyboard ''mycal'') None)
      \<lparr>api_calls := [EditMessageText 7 11 (PROMPT_CHOOSE_ACTION ''mycal'') (calendar_keyboard ''mycal'')]\<rparr>)"
  by (simp add: routing_defs handler_defs example_defs api_defs kb_defs Let_def)

text \<open>
  C9. The claim: in every handler that re-renders the keyboard message, an edit with
  unchanged content is a success and no error escapes the handler. The code in
  \<^verbatim>\<open>select_calendar_inline\<close>, run in \<open>STATE_ACTION_SELECTION\<close> on the message that already
  shows the action menu of that calendar: the edit is not guarded, and the \<^verbatim>\<open>BadRequest\<close>
  escapes the handler.
\<close>

theorem redundant_edit_escapes:
  "conv_handler example_env (Some STATE_ACTION_SELECTION) (button_update ''select_calendar_inline#mycal'')
     (example_world (PROMPT_CHOOSE_ACTION ''mycal'') (calendar_keyboard ''mycal'') None) =
   (Some STATE_ACTION_SELECTION, Some BadRequest,
    (example_world (PROMPT_CHOOSE_ACTION ''mycal'') (calendar_keyboard ''mycal'') None)
      \<lparr>api_calls := [EditMessageText 7 11 (PROMPT_CHOOSE_ACTION ''mycal'') (calendar_keyboard ''mycal'')]\<rparr>)"
  by (simp add: routing_defs handler_defs example_defs api_defs kb_defs Let_def)

end
